theory Spec2Isabelle
  imports Main
begin

section \<open>JavaScript values\<close>

text \<open>
  The hook \<^verbatim>\<open>useQuery\<close> of \<^verbatim>\<open>src/label_studio/frontend/src/hooks/useQuery.ts\<close> is
  generic in the payload type (\<^verbatim>\<open>T = any\<close>) and reads two properties of values it did
  not create: \<^verbatim>\<open>data.error\<close> and \<^verbatim>\<open>err.message\<close>. The values are modelled by a small
  datatype. Numbers are the integral ones; an object is the list of its own properties,
  with distinct keys.
\<close>

datatype jsval =
    Undefined
  | Null
  | Bool bool
  | Num int
  | Str string
  | Obj "(string \<times> jsval) list"

text \<open>Truthiness, as the conditions \<^verbatim>\<open>if (v)\<close>, \<^verbatim>\<open>a || b\<close> and \<^verbatim>\<open>!v\<close> read it.\<close>

fun truthy :: "jsval \<Rightarrow> bool" where
  "truthy Undefined = False"
| "truthy Null = False"
| "truthy (Bool b) = b"
| "truthy (Num n) = (n \<noteq> 0)"
| "truthy (Str s) = (s \<noteq> [])"
| "truthy (Obj kvs) = True"

text \<open>
  Reading a property of \<^verbatim>\<open>undefined\<close> or \<^verbatim>\<open>null\<close> throws a TypeError. The error is an
  object with a message; the wording of the message is the engine's (here V8's).
\<close>

definition TypeError :: "string \<Rightarrow> string \<Rightarrow> jsval" where
  "TypeError what k =
     Obj [(''name'', Str ''TypeError''),
          (''message'', Str (''Cannot read properties of '' @ what @ '' (reading ''
             @ [CHR 0x27] @ k @ [CHR 0x27] @ '')''))]"

text \<open>
  \<^verbatim>\<open>v.k\<close> for the two property names the hook reads, \<^verbatim>\<open>error\<close> and \<^verbatim>\<open>message\<close>:
  neither is a property of a boxed boolean, number or string, so a primitive yields
  \<^verbatim>\<open>undefined\<close>. \<open>Inl\<close> is the thrown value.
\<close>

fun get_prop :: "jsval \<Rightarrow> string \<Rightarrow> jsval + jsval" where
  "get_prop Undefined k = Inl (TypeError ''undefined'' k)"
| "get_prop Null k = Inl (TypeError ''null'' k)"
| "get_prop (Obj kvs) k = Inr (case map_of kvs k of None \<Rightarrow> Undefined | Some v \<Rightarrow> v)"
| "get_prop (Bool b) k = Inr Undefined"
| "get_prop (Num n) k = Inr Undefined"
| "get_prop (Str s) k = Inr Undefined"

subsection \<open>The \<^verbatim>\<open>in\<close> operator\<close>

text \<open>
  \<^verbatim>\<open>k in o\<close> asks whether \<open>k\<close> is the name of a property of the object \<open>o\<close>, its own or
  inherited. The properties every object inherits from \<^verbatim>\<open>Object.prototype\<close>:
\<close>

definition Object_prototype_keys :: "string list" where
  "Object_prototype_keys =
     [''constructor'', ''__defineGetter__'', ''__defineSetter__'', ''hasOwnProperty'',
      ''__lookupGetter__'', ''__lookupSetter__'', ''isPrototypeOf'',
      ''propertyIsEnumerable'', ''toString'', ''valueOf'', ''__proto__'',
      ''toLocaleString'']"

text \<open>and those an array inherits from \<^verbatim>\<open>Array.prototype\<close>:\<close>

definition Array_prototype_keys :: "string list" where
  "Array_prototype_keys =
     [''length'', ''constructor'', ''at'', ''concat'', ''copyWithin'', ''fill'', ''find'',
      ''findIndex'', ''findLast'', ''findLastIndex'', ''lastIndexOf'', ''pop'', ''push'',
      ''reverse'', ''shift'', ''unshift'', ''slice'', ''sort'', ''splice'', ''includes'',
      ''indexOf'', ''join'', ''keys'', ''entries'', ''values'', ''forEach'', ''filter'',
      ''flat'', ''flatMap'', ''map'', ''every'', ''some'', ''reduce'', ''reduceRight'',
      ''toLocaleString'', ''toString'', ''toReversed'', ''toSorted'', ''toSpliced'',
      ''with'']"

text \<open>The decimal name of an array index.\<close>

definition digit_char :: "nat \<Rightarrow> char" where
  "digit_char d = ''0123456789'' ! d"

fun string_of_nat :: "nat \<Rightarrow> string" where
  "string_of_nat n =
     (if n < 10 then [digit_char n] else string_of_nat (n div 10) @ [digit_char (n mod 10)])"

declare string_of_nat.simps [simp del]

text \<open>
  The own properties of an array literal are its indices and \<^verbatim>\<open>length\<close>; its elements
  are not property names.
\<close>

definition array_own_keys :: "'a list \<Rightarrow> string list" where
  "array_own_keys xs = map (\<lambda>(i, x). string_of_nat i) (enumerate 0 xs) @ [''length'']"

definition js_in_array :: "string \<Rightarrow> 'a list \<Rightarrow> bool" where
  "js_in_array k xs =
     (k \<in> set (array_own_keys xs) \<or> k \<in> set Array_prototype_keys
        \<or> k \<in> set Object_prototype_keys)"

text \<open>An object literal (a compiled enum) has the listed own keys.\<close>

definition js_in_object :: "string \<Rightarrow> string list \<Rightarrow> bool" where
  "js_in_object k own = (k \<in> set own \<or> k \<in> set Object_prototype_keys)"

section \<open>The state machine, first variant (lines 13--111)\<close>

text \<open>
  The source file holds two variants of the hook, one after the other: the first
  (lines 1--270) has the statuses HYDRATING and ERROR, the second (lines 270--449) has
  neither. The names of the second variant carry the suffix 2.
\<close>

datatype QueryStatus = IDLE | LOADING | LOADED | HYDRATING | HYDRATED | ERROR

text \<open>The string value of each member of the enum.\<close>

fun QueryStatus_value :: "QueryStatus \<Rightarrow> string" where
  "QueryStatus_value IDLE = ''IDLE''"
| "QueryStatus_value LOADING = ''LOADING''"
| "QueryStatus_value LOADED = ''LOADED''"
| "QueryStatus_value HYDRATING = ''HYDRATING''"
| "QueryStatus_value HYDRATED = ''HYDRATED''"
| "QueryStatus_value ERROR = ''ERROR''"

datatype ACTIONS =
    ACTIONS_LOADING
  | ACTIONS_LOADED
  | ACTIONS_HYDRATING
  | ACTIONS_HYDRATED
  | ACTIONS_ERROR
  | ACTIONS_RESET

fun ACTIONS_value :: "ACTIONS \<Rightarrow> string" where
  "ACTIONS_value ACTIONS_LOADING = ''LOADING''"
| "ACTIONS_value ACTIONS_LOADED = ''LOADED''"
| "ACTIONS_value ACTIONS_HYDRATING = ''HYDRATING''"
| "ACTIONS_value ACTIONS_HYDRATED = ''HYDRATED''"
| "ACTIONS_value ACTIONS_ERROR = ''ERROR''"
| "ACTIONS_value ACTIONS_RESET = ''RESET''"

text \<open>The own keys of the compiled enum object \<^verbatim>\<open>ACTIONS\<close>.\<close>

definition ACTIONS_keys :: "string list" where
  "ACTIONS_keys = [''LOADING'', ''LOADED'', ''HYDRATING'', ''HYDRATED'', ''ERROR'', ''RESET'']"

record QueryState =
  status :: QueryStatus
  data :: jsval
  error :: jsval

text \<open>An action without a payload has the payload \<^verbatim>\<open>undefined\<close>.\<close>

record QueryAction =
  action_type :: ACTIONS
  payload :: jsval

definition initialState :: QueryState where
  "initialState = \<lparr>status = IDLE, data = Null, error = Null\<rparr>"

fun queryActions :: "ACTIONS \<Rightarrow> QueryState \<Rightarrow> QueryAction \<Rightarrow> QueryState" where
  "queryActions ACTIONS_LOADING state action = state\<lparr>status := LOADING\<rparr>"
| "queryActions ACTIONS_HYDRATING state action = state\<lparr>status := HYDRATING\<rparr>"
| "queryActions ACTIONS_LOADED state action =
     state\<lparr>status := LOADED, data := payload action\<rparr>"
| "queryActions ACTIONS_HYDRATED state action =
     state\<lparr>status := HYDRATED, data := payload action\<rparr>"
| "queryActions ACTIONS_ERROR state action =
     state\<lparr>status := ERROR, error := payload action\<rparr>"
| "queryActions ACTIONS_RESET state action = initialState"

definition queryReducer :: "QueryState \<Rightarrow> QueryAction \<Rightarrow> QueryState" where
  "queryReducer state action =
     (if js_in_object (ACTIONS_value (action_type action)) ACTIONS_keys
      then queryActions (action_type action) state action
      else state)"

section \<open>The state machine, second variant (lines 297--364)\<close>

datatype QueryStatus2 = IDLE2 | LOADING2 | LOADED2 | HYDRATED2

fun QueryStatus2_value :: "QueryStatus2 \<Rightarrow> string" where
  "QueryStatus2_value IDLE2 = ''IDLE''"
| "QueryStatus2_value LOADING2 = ''LOADING''"
| "QueryStatus2_value LOADED2 = ''LOADED''"
| "QueryStatus2_value HYDRATED2 = ''HYDRATED''"

datatype ACTIONS2 =
    ACTIONS2_LOADING
  | ACTIONS2_LOADED
  | ACTIONS2_HYDRATED
  | ACTIONS2_RESET

fun ACTIONS2_value :: "ACTIONS2 \<Rightarrow> string" where
  "ACTIONS2_value ACTIONS2_LOADING = ''LOADING''"
| "ACTIONS2_value ACTIONS2_LOADED = ''LOADED''"
| "ACTIONS2_value ACTIONS2_HYDRATED = ''HYDRATED''"
| "ACTIONS2_value ACTIONS2_RESET = ''RESET''"

definition ACTIONS2_keys :: "string list" where
  "ACTIONS2_keys = [''LOADING'', ''LOADED'', ''HYDRATED'', ''RESET'']"

record QueryState2 =
  status2 :: QueryStatus2
  data2 :: jsval

record QueryAction2 =
  action_type2 :: ACTIONS2
  payload2 :: jsval

definition initialState2 :: QueryState2 where
  "initialState2 = \<lparr>status2 = IDLE2, data2 = Null\<rparr>"

text \<open>Line 337: the LOADING action of this variant stores the status LOADED.\<close>

fun queryActions2 :: "ACTIONS2 \<Rightarrow> QueryState2 \<Rightarrow> QueryAction2 \<Rightarrow> QueryState2" where
  "queryActions2 ACTIONS2_LOADING state action = state\<lparr>status2 := LOADED2\<rparr>"
| "queryActions2 ACTIONS2_LOADED state action =
     state\<lparr>status2 := LOADED2, data2 := payload2 action\<rparr>"
| "queryActions2 ACTIONS2_HYDRATED state action =
     state\<lparr>status2 := HYDRATED2, data2 := payload2 action\<rparr>"
| "queryActions2 ACTIONS2_RESET state action = initialState2"

definition queryReducer2 :: "QueryState2 \<Rightarrow> QueryAction2 \<Rightarrow> QueryState2" where
  "queryReducer2 state action =
     (if js_in_object (ACTIONS2_value (action_type2 action)) ACTIONS2_keys
      then queryActions2 (action_type2 action) state action
      else state)"

section \<open>Options and their merge\<close>

text \<open>
  A property of an options object is absent, present holding \<^verbatim>\<open>undefined\<close>, or
  present holding a value: a spread copies a key that holds \<^verbatim>\<open>undefined\<close>, and skips
  one that is absent.
\<close>

datatype 'a field = Absent | Undef | Val 'a

type_synonym jsrecord = "string \<rightharpoonup> jsval"

text \<open>The fields here hold objects or are not set, so one is truthy when it has a value.\<close>

fun truthy_field :: "'a field \<Rightarrow> bool" where
  "truthy_field (Val v) = True"
| "truthy_field Undef = False"
| "truthy_field Absent = False"

text \<open>\<^verbatim>\<open>{ ...a, ...b }\<close>, read at one key.\<close>

fun spread_field :: "'a field \<Rightarrow> 'a field \<Rightarrow> 'a field" where
  "spread_field a Absent = a"
| "spread_field a Undef = Undef"
| "spread_field a (Val v) = Val v"

text \<open>The properties a spread \<^verbatim>\<open>...r\<close> contributes: none when \<open>r\<close> is not set.\<close>

fun spread_of :: "jsrecord field \<Rightarrow> jsrecord" where
  "spread_of (Val m) = m"
| "spread_of Undef = Map.empty"
| "spread_of Absent = Map.empty"

text \<open>\<^verbatim>\<open>{ ...a, ...b }\<close> for two records each of which may be unset.\<close>

definition spread_record :: "jsrecord field \<Rightarrow> jsrecord field \<Rightarrow> jsrecord" where
  "spread_record a b = spread_of a ++ spread_of b"

text \<open>
  \<^verbatim>\<open>Omit<QueryOptions, 'hydrate' | 'skipInitialRequest'>\<close>: the options of the
  hydration fetch, in both variants.
\<close>

record HydrateOptions =
  hydrate_query :: "jsrecord field"

record QueryOptions =
  query :: "jsrecord field"
  skipInitialRequest :: "bool field"
  hydrate :: "HydrateOptions field"

text \<open>\<^verbatim>\<open>h?.query\<close>\<close>

fun chain_query :: "HydrateOptions field \<Rightarrow> jsrecord field" where
  "chain_query (Val h) = hydrate_query h"
| "chain_query Undef = Undef"
| "chain_query Absent = Undef"

text \<open>The default \<^verbatim>\<open>{}\<close> of a parameter of type QueryOptions.\<close>

definition no_options :: QueryOptions where
  "no_options = \<lparr>query = Absent, skipInitialRequest = Absent, hydrate = Absent\<rparr>"

text \<open>
  \<^verbatim>\<open>updateOptions\<close>, lines 127--145, as a function from the stored options
  (\<^verbatim>\<open>optionsRef.current\<close>) and the incoming ones to the new stored options. The keys
  \<^verbatim>\<open>query\<close> and \<^verbatim>\<open>hydrate\<close> are written after the two spreads, so they are always
  present in the result. The second parameter \<^verbatim>\<open>force\<close> only asks React for a new
  render and is left out.
\<close>

definition updateOptions :: "QueryOptions \<Rightarrow> QueryOptions \<Rightarrow> QueryOptions" where
  "updateOptions current options =
     \<lparr>query = Val (spread_record (query current) (query options)),
      skipInitialRequest =
        spread_field (skipInitialRequest current) (skipInitialRequest options),
      hydrate =
        (if truthy_field (hydrate options) \<or> truthy_field (hydrate current)
         then Val \<lparr>hydrate_query =
                (if truthy_field (chain_query (hydrate options))
                      \<or> truthy_field (chain_query (hydrate current))
                 then Val (spread_record (chain_query (hydrate current))
                             (chain_query (hydrate options)))
                 else Undef)\<rparr>
         else Undef)\<rparr>"

subsection \<open>Second variant (lines 272--276 and 379--385)\<close>

record QueryOptions2 =
  query2 :: "jsrecord field"
  pause :: "bool field"
  hydrate2 :: "HydrateOptions field"

text \<open>The key \<^verbatim>\<open>query\<close> as a spread \<^verbatim>\<open>...h\<close> of the hydrate options contributes it.\<close>

fun spread_query :: "HydrateOptions field \<Rightarrow> jsrecord field" where
  "spread_query (Val h) = hydrate_query h"
| "spread_query Undef = Absent"
| "spread_query Absent = Absent"

definition no_options2 :: QueryOptions2 where
  "no_options2 = \<lparr>query2 = Absent, pause = Absent, hydrate2 = Absent\<rparr>"

text \<open>
  Here \<^verbatim>\<open>query\<close> comes from the two top-level spreads alone: an incoming query
  replaces the stored one as a whole, and so does the query of the hydrate options.
\<close>

definition updateOptions2 :: "QueryOptions2 \<Rightarrow> QueryOptions2 \<Rightarrow> QueryOptions2" where
  "updateOptions2 current options =
     \<lparr>query2 = spread_field (query2 current) (query2 options),
      pause = spread_field (pause current) (pause options),
      hydrate2 =
        (if truthy_field (hydrate2 options) \<or> truthy_field (hydrate2 current)
         then Val \<lparr>hydrate_query =
                spread_field (spread_query (hydrate2 current))
                  (spread_query (hydrate2 options))\<rparr>
         else Undef)\<rparr>"

section \<open>The request coordinator, first variant (lines 113--233)\<close>

text \<open>
  The mutable cells of one instance of the hook: the reducer's state and the refs
  \<^verbatim>\<open>optionsRef\<close>, \<^verbatim>\<open>mounted\<close>, \<^verbatim>\<open>hasFetched\<close> and \<^verbatim>\<open>abortRef\<close>. An
  AbortController is known by its number in order of creation, and \<open>controllers\<close> counts
  those created so far; \<^verbatim>\<open>abortRef.current\<close> is \<open>None\<close> while it is \<^verbatim>\<open>null\<close>.
  Two further fields only observe: \<open>dispatched\<close> lists the status after every dispatch,
  and \<open>invoked\<close> the arguments of every call of the transport function
  \<^verbatim>\<open>reqRef.current\<close>, both in order.

  The last field, \<open>argument\<close>, is not a cell of the hook: it is the options the
  component passes to \<^verbatim>\<open>useQuery\<close> when it renders.
\<close>

text \<open>
  The first argument of the transport function,
  \<^verbatim>\<open>{ ...queryOptions, signal: abortRef.current.signal, hydrate: withHydrate }\<close>:
  the keys \<^verbatim>\<open>signal\<close> and \<^verbatim>\<open>hydrate\<close> are written last, so \<open>params\<close> holds the other
  keys of the query.
\<close>

record request_args =
  params :: jsrecord
  signal :: nat
  hydrate_flag :: bool

record hook =
  state :: QueryState
  optionsRef :: QueryOptions
  mounted :: bool
  hasFetched :: bool
  abortRef :: "nat option"
  controllers :: nat
  dispatched :: "QueryStatus list"
  invoked :: "request_args list"
  argument :: QueryOptions

text \<open>The cells as the first render leaves them, for the options given to the hook.\<close>

definition hook_init :: "QueryOptions \<Rightarrow> hook" where
  "hook_init options =
     \<lparr>state = initialState, optionsRef = options, mounted = True, hasFetched = False,
      abortRef = None, controllers = 0, dispatched = [], invoked = [],
      argument = options\<rparr>"

text \<open>
  A render runs the body of the hook again, lines 114--125: line 123 assigns
  \<^verbatim>\<open>optionsRef.current = options\<close>, so whatever \<^verbatim>\<open>updateOptions\<close> had merged into
  the ref is replaced by the hook's argument. (Line 122 stores the transport function,
  which is a parameter of the functions below.)
\<close>

definition render :: "hook \<Rightarrow> hook" where
  "render h = h\<lparr>optionsRef := argument h\<rparr>"

text \<open>
  What one call of the transport function does, as the hook sees it: the options it
  passes to \<^verbatim>\<open>updateOptions\<close> (its second argument), in order, once the render that
  the dispatch of line 203 causes has run (what it passed before is replaced by that
  render), and how its promise settles. A transport function that throws before it
  returns a promise settles as \<open>Rejected\<close>: the \<^verbatim>\<open>await\<close> stands inside the
  \<^verbatim>\<open>try\<close>.
\<close>

datatype settled = Resolved jsval | Rejected jsval

record response =
  declared :: "QueryOptions list"
  outcome :: settled

text \<open>How an async function ends: it returns, or it throws and its promise rejects.\<close>

datatype completion = Returned | Threw jsval

text \<open>
  \<^verbatim>\<open>dispatch\<close>: React runs the reducer and renders the component again. Under
  React 17 a dispatch made from a promise continuation (lines 218 and 221; line 203 of
  the hydration call) renders before it returns. One made while React runs an event
  handler or an effect renders when that handler ends, which for line 203 of the primary
  call is after the transport function was called; until then \<^verbatim>\<open>call\<close> reads no
  options (lines 206 and 209 use the values read at line 199), so the render is placed
  at the dispatch in both cases.
\<close>

definition dispatch :: "QueryAction \<Rightarrow> hook \<Rightarrow> hook" where
  "dispatch a h =
     render
       (h\<lparr>state := queryReducer (state h) a,
          dispatched := dispatched h @ [status (queryReducer (state h) a)]\<rparr>)"

definition set_options :: "QueryOptions \<Rightarrow> hook \<Rightarrow> hook" where
  "set_options options h = h\<lparr>optionsRef := updateOptions (optionsRef h) options\<rparr>"

text \<open>
  \<^verbatim>\<open>call\<close>, lines 195--223, up to the \<^verbatim>\<open>await\<close> of line 209: the options of this
  \<^verbatim>\<open>request\<close> (\<open>None\<close> when it was called without any) are merged again, the guard of
  line 201 may return, and otherwise the status is dispatched, a new controller is
  stored and the transport function is called with the arguments returned here.
\<close>

definition call_begin :: "bool \<Rightarrow> QueryOptions option \<Rightarrow> hook \<Rightarrow> request_args option \<times> hook" where
  "call_begin withHydrate options h =
     (let h1 = set_options (case options of None \<Rightarrow> no_options | Some opts \<Rightarrow> opts) h;
          q = query (optionsRef h1);
          hy = hydrate (optionsRef h1)
      in if \<not> mounted h1 then (None, h1)
         else if withHydrate \<and> \<not> truthy_field (chain_query hy) then (None, h1)
         else
           let h2 = dispatch
                 \<lparr>action_type = (if withHydrate then ACTIONS_HYDRATING else ACTIONS_LOADING),
                  payload = Undefined\<rparr> h1;
               h3 = h2\<lparr>abortRef := Some (controllers h2),
                      controllers := Suc (controllers h2)\<rparr>;
               queryOptions = (if withHydrate then chain_query hy else q);
               args = \<lparr>params = spread_of queryOptions |` (- {''signal'', ''hydrate''}),
                       signal = controllers h2,
                       hydrate_flag = withHydrate\<rparr>
           in (Some args, h3\<lparr>invoked := invoked h3 @ [args]\<rparr>))"

text \<open>
  The body of the \<^verbatim>\<open>try\<close>, lines 209--213, up to the check of \<^verbatim>\<open>mounted\<close>:
  \<open>Inl\<close> is the value that reaches the \<^verbatim>\<open>catch\<close>, \<open>Inr\<close> the data.
\<close>

definition try_block :: "settled \<Rightarrow> jsval + jsval" where
  "try_block s =
     (case s of
        Rejected e \<Rightarrow> Inl e
      | Resolved d \<Rightarrow>
          (case get_prop d ''error'' of
             Inl type_error \<Rightarrow> Inl type_error
           | Inr e \<Rightarrow> if truthy e then Inl e else Inr d))"

text \<open>
  The rest of \<^verbatim>\<open>call\<close>, from the moment the promise of the transport function
  settles. The options the transport function declared meanwhile are in place by then.
  Nothing here reads \<^verbatim>\<open>abortRef\<close>. In the \<^verbatim>\<open>catch\<close>, \<^verbatim>\<open>err.message\<close> is read
  outside any \<^verbatim>\<open>try\<close>, so a TypeError there leaves \<^verbatim>\<open>call\<close>.
\<close>

definition call_complete :: "bool \<Rightarrow> response \<Rightarrow> hook \<Rightarrow> completion \<times> hook" where
  "call_complete withHydrate r h =
     (let h1 = foldl (\<lambda>h' opts. set_options opts h') h (declared r)
      in case try_block (outcome r) of
           Inr d \<Rightarrow>
             if \<not> mounted h1 then (Returned, h1)
             else (Returned,
                   dispatch
                     \<lparr>action_type = (if withHydrate then ACTIONS_HYDRATED else ACTIONS_LOADED),
                      payload = d\<rparr>
                     (h1\<lparr>hasFetched := True\<rparr>))
         | Inl err \<Rightarrow>
             if \<not> mounted h1 then (Returned, h1)
             else (case get_prop err ''message'' of
                     Inl type_error \<Rightarrow> (Threw type_error, h1)
                   | Inr m \<Rightarrow>
                       (Returned, dispatch \<lparr>action_type = ACTIONS_ERROR, payload = m\<rparr> h1)))"

text \<open>One \<^verbatim>\<open>await call(withHydrate)\<close> with nothing else happening meanwhile.\<close>

definition call :: "bool \<Rightarrow> QueryOptions option \<Rightarrow> (request_args \<Rightarrow> response) \<Rightarrow> hook \<Rightarrow> completion \<times> hook" where
  "call withHydrate options req h =
     (case call_begin withHydrate options h of
        (None, h1) \<Rightarrow> (Returned, h1)
      | (Some args, h1) \<Rightarrow> call_complete withHydrate (req args) h1)"

text \<open>
  Lines 226--231, the block under the guard of \<^verbatim>\<open>request\<close>: one request cycle. A
  \<^verbatim>\<open>call\<close> that throws ends the cycle. Line 229 reads \<^verbatim>\<open>optionsRef.current\<close> as
  the first \<^verbatim>\<open>call\<close> left it: after a dispatch of LOADED or ERROR that is the hook's
  argument again. The argument of the second \<^verbatim>\<open>call\<close>,
  \<^verbatim>\<open>!!optionsRef.current.hydrate\<close>, is true in the branch that runs it.
\<close>

definition request_cycle :: "QueryOptions option \<Rightarrow> (request_args \<Rightarrow> response) \<Rightarrow> hook \<Rightarrow> completion \<times> hook" where
  "request_cycle options req h =
     (case call False options req h of
        (Threw e, h1) \<Rightarrow> (Threw e, h1)
      | (Returned, h1) \<Rightarrow>
          if truthy_field (hydrate (optionsRef h1))
          then call (truthy_field (hydrate (optionsRef h1))) options req h1
          else (Returned, h1))"

text \<open>
  The guard of line 225, \<^verbatim>\<open>state.status in [QueryStatus.IDLE, QueryStatus.LOADED,
  QueryStatus.HYDRATED]\<close>: the operator \<^verbatim>\<open>in\<close> with an array on its right.
\<close>

definition request_guard :: "QueryStatus \<Rightarrow> bool" where
  "request_guard st = js_in_array (QueryStatus_value st) [IDLE, LOADED, HYDRATED]"

text \<open>
  \<^verbatim>\<open>request\<close>, lines 194--233, called on the hook's current render (the status it
  reads is the current one).
\<close>

definition request :: "QueryOptions option \<Rightarrow> (request_args \<Rightarrow> response) \<Rightarrow> hook \<Rightarrow> completion \<times> hook" where
  "request options req h =
     (if request_guard (status (state h)) then request_cycle options req h
      else (Returned, h))"

text \<open>
  The cleanup of the mount effect, lines 254--257: it aborts the current controller,
  which changes none of the cells, and clears \<^verbatim>\<open>mounted\<close>.
\<close>

definition cleanup :: "hook \<Rightarrow> hook" where
  "cleanup h = h\<lparr>mounted := False\<rparr>"

section \<open>The request coordinator, second variant (lines 366--415)\<close>

text \<open>
  The first argument of the transport function here is
  \<^verbatim>\<open>{ ...opts, signal, hydrate: withHydrate ? hydrate : undefined }\<close>, with \<open>opts\<close> the
  stored options without their \<^verbatim>\<open>hydrate\<close>.
\<close>

record request_args2 =
  query_arg :: "jsrecord field"
  pause_arg :: "bool field"
  signal2 :: nat
  hydrate_arg :: "HydrateOptions field"

record hook2 =
  state2 :: QueryState2
  optionsRef2 :: QueryOptions2
  mounted2 :: bool
  hasFetched2 :: bool
  abortRef2 :: "nat option"
  controllers2 :: nat
  dispatched2 :: "QueryStatus2 list"
  invoked2 :: "request_args2 list"
  argument2 :: QueryOptions2

definition hook_init2 :: "QueryOptions2 \<Rightarrow> hook2" where
  "hook_init2 options =
     \<lparr>state2 = initialState2, optionsRef2 = options, mounted2 = True, hasFetched2 = False,
      abortRef2 = None, controllers2 = 0, dispatched2 = [], invoked2 = [],
      argument2 = options\<rparr>"

text \<open>A render, lines 367--377: line 375 assigns \<^verbatim>\<open>optionsRef.current = options\<close>.\<close>

definition render2 :: "hook2 \<Rightarrow> hook2" where
  "render2 h = h\<lparr>optionsRef2 := argument2 h\<rparr>"

record response2 =
  declared2 :: "QueryOptions2 list"
  outcome2 :: settled

definition dispatch2 :: "QueryAction2 \<Rightarrow> hook2 \<Rightarrow> hook2" where
  "dispatch2 a h =
     render2
       (h\<lparr>state2 := queryReducer2 (state2 h) a,
          dispatched2 := dispatched2 h @ [status2 (queryReducer2 (state2 h) a)]\<rparr>)"

definition set_options2 :: "QueryOptions2 \<Rightarrow> hook2 \<Rightarrow> hook2" where
  "set_options2 options h = h\<lparr>optionsRef2 := updateOptions2 (optionsRef2 h) options\<rparr>"

text \<open>\<^verbatim>\<open>call\<close>, lines 388--405, up to the \<^verbatim>\<open>await\<close> of line 399.\<close>

definition call_begin2 :: "bool \<Rightarrow> QueryOptions2 option \<Rightarrow> hook2 \<Rightarrow> request_args2 option \<times> hook2" where
  "call_begin2 withHydrate options h =
     (let h1 = set_options2 (case options of None \<Rightarrow> no_options2 | Some opts \<Rightarrow> opts) h;
          hy = hydrate2 (optionsRef2 h1)
      in if \<not> mounted2 h1 then (None, h1)
         else
           let h2 = dispatch2 \<lparr>action_type2 = ACTIONS2_LOADING, payload2 = Undefined\<rparr> h1;
               h3 = h2\<lparr>abortRef2 := Some (controllers2 h2),
                      controllers2 := Suc (controllers2 h2)\<rparr>;
               args = \<lparr>query_arg = query2 (optionsRef2 h1),
                       pause_arg = pause (optionsRef2 h1),
                       signal2 = controllers2 h2,
                       hydrate_arg = (if withHydrate then hy else Undef)\<rparr>
           in (Some args, h3\<lparr>invoked2 := invoked2 h3 @ [args]\<rparr>))"

text \<open>
  The rest of \<^verbatim>\<open>call\<close>, lines 399--404. There is no \<^verbatim>\<open>try\<close>: a rejected promise
  makes the \<^verbatim>\<open>await\<close> throw, and \<^verbatim>\<open>call\<close> rejects with the same value.
\<close>

definition call_complete2 :: "bool \<Rightarrow> response2 \<Rightarrow> hook2 \<Rightarrow> completion \<times> hook2" where
  "call_complete2 withHydrate r h =
     (let h1 = foldl (\<lambda>h' opts. set_options2 opts h') h (declared2 r)
      in case outcome2 r of
           Rejected e \<Rightarrow> (Threw e, h1)
         | Resolved d \<Rightarrow>
             if \<not> mounted2 h1 then (Returned, h1)
             else (Returned,
                   dispatch2
                     \<lparr>action_type2 = (if withHydrate then ACTIONS2_HYDRATED else ACTIONS2_LOADED),
                      payload2 = d\<rparr>
                     (h1\<lparr>hasFetched2 := True\<rparr>)))"

definition call2 :: "bool \<Rightarrow> QueryOptions2 option \<Rightarrow> (request_args2 \<Rightarrow> response2) \<Rightarrow> hook2 \<Rightarrow> completion \<times> hook2" where
  "call2 withHydrate options req h =
     (case call_begin2 withHydrate options h of
        (None, h1) \<Rightarrow> (Returned, h1)
      | (Some args, h1) \<Rightarrow> call_complete2 withHydrate (req args) h1)"

text \<open>Lines 408--413.\<close>

definition request_cycle2 :: "QueryOptions2 option \<Rightarrow> (request_args2 \<Rightarrow> response2) \<Rightarrow> hook2 \<Rightarrow> completion \<times> hook2" where
  "request_cycle2 options req h =
     (case call2 False options req h of
        (Threw e, h1) \<Rightarrow> (Threw e, h1)
      | (Returned, h1) \<Rightarrow>
          if truthy_field (hydrate2 (optionsRef2 h1))
          then call2 (truthy_field (hydrate2 (optionsRef2 h1))) options req h1
          else (Returned, h1))"

text \<open>The guard of line 407, written as in the first variant.\<close>

definition request_guard2 :: "QueryStatus2 \<Rightarrow> bool" where
  "request_guard2 st = js_in_array (QueryStatus2_value st) [IDLE2, LOADED2, HYDRATED2]"

definition request2 :: "QueryOptions2 option \<Rightarrow> (request_args2 \<Rightarrow> response2) \<Rightarrow> hook2 \<Rightarrow> completion \<times> hook2" where
  "request2 options req h =
     (if request_guard2 (status2 (state2 h)) then request_cycle2 options req h
      else (Returned, h))"

section \<open>Concrete inputs\<close>

text \<open>
  Payloads, options and transport functions used to run the definitions on concrete
  inputs. The options follow the example in the comment of lines 147--193.
\<close>

definition primary_payload :: jsval where
  "primary_payload = Obj [(''count'', Num 120)]"

definition hydration_payload :: jsval where
  "hydration_payload = Obj [(''count'', Num 120), (''members'', Num 7)]"

definition first_payload :: jsval where
  "first_payload = Obj [(''page'', Num 1)]"

definition second_payload :: jsval where
  "second_payload = Obj [(''page'', Num 2)]"

text \<open>An error object, as \<^verbatim>\<open>new Error("boom")\<close> is read by the hook.\<close>

definition boom :: jsval where
  "boom = Obj [(''message'', Str ''boom'')]"

definition resolves :: "jsval \<Rightarrow> response" where
  "resolves d = \<lparr>declared = [], outcome = Resolved d\<rparr>"

definition rejects :: "jsval \<Rightarrow> response" where
  "rejects e = \<lparr>declared = [], outcome = Rejected e\<rparr>"

definition rejects2 :: "jsval \<Rightarrow> response2" where
  "rejects2 e = \<lparr>declared2 = [], outcome2 = Rejected e\<rparr>"

definition resolves2 :: "jsval \<Rightarrow> response2" where
  "resolves2 d = \<lparr>declared2 = [], outcome2 = Resolved d\<rparr>"

text \<open>A transport function that succeeds on both fetches and declares nothing.\<close>

definition plain_transport :: "request_args \<Rightarrow> response" where
  "plain_transport a =
     resolves (if hydrate_flag a then hydration_payload else primary_payload)"

text \<open>
  The transport function of the comment: on the primary fetch it declares the ids to
  hydrate, through \<^verbatim>\<open>updateOptions({ hydrate: { query: { ids } } })\<close>.
\<close>

definition declaring_transport :: "request_args \<Rightarrow> response" where
  "declaring_transport a =
     (if hydrate_flag a then resolves hydration_payload
      else \<lparr>declared =
              [\<lparr>query = Absent, skipInitialRequest = Absent,
                hydrate = Val \<lparr>hydrate_query = Val [''ids'' \<mapsto> Str ''1,2,3'']\<rparr>\<rparr>],
            outcome = Resolved primary_payload\<rparr>)"

text \<open>A transport function whose primary fetch rejects and whose hydration fetch succeeds.\<close>

definition failing_primary :: "request_args \<Rightarrow> response" where
  "failing_primary a = (if hydrate_flag a then resolves hydration_payload else rejects boom)"

definition page_options :: QueryOptions where
  "page_options =
     \<lparr>query = Val [''page'' \<mapsto> Num 1, ''page_size'' \<mapsto> Num 30],
      skipInitialRequest = Val True, hydrate = Absent\<rparr>"

text \<open>\<^verbatim>\<open>hydrate: {}\<close>\<close>

definition empty_hydrate_options :: QueryOptions where
  "empty_hydrate_options = page_options\<lparr>hydrate := Val \<lparr>hydrate_query = Absent\<rparr>\<rparr>"

text \<open>\<^verbatim>\<open>hydrate: { query: { ids: "1,2,3" } }\<close>\<close>

definition ids_hydrate_options :: QueryOptions where
  "ids_hydrate_options =
     page_options\<lparr>hydrate := Val \<lparr>hydrate_query = Val [''ids'' \<mapsto> Str ''1,2,3'']\<rparr>\<rparr>"

section \<open>Facts about the model\<close>

subsection \<open>The reducers\<close>

text \<open>Every action type is a key of its enum, so the reducer always finds a handler.\<close>

lemma ACTIONS_in_enum: "js_in_object (ACTIONS_value a) ACTIONS_keys"
  by (cases a) (simp_all add: js_in_object_def ACTIONS_keys_def)

lemma ACTIONS2_in_enum: "js_in_object (ACTIONS2_value a) ACTIONS2_keys"
  by (cases a) (simp_all add: js_in_object_def ACTIONS2_keys_def)

lemma queryReducer_eq: "queryReducer s a = queryActions (action_type a) s a"
  by (simp add: queryReducer_def ACTIONS_in_enum)

lemma queryReducer2_eq: "queryReducer2 s a = queryActions2 (action_type2 a) s a"
  by (simp add: queryReducer2_def ACTIONS2_in_enum)

text \<open>The LOADING action of the first variant does store LOADING and nothing else.\<close>

lemma START_first_variant:
  "queryReducer s \<lparr>action_type = ACTIONS_LOADING, payload = p\<rparr> = s\<lparr>status := LOADING\<rparr>"
  by (simp add: queryReducer_eq)

lemmas run_defs = request_cycle_def call_def call_begin_def call_complete_def try_block_def
  set_options_def dispatch_def hook_init_def updateOptions_def no_options_def Let_def
  queryReducer_eq initialState_def render_def

lemmas run_defs2 = request_cycle2_def call2_def call_begin2_def call_complete2_def
  set_options2_def dispatch2_def hook_init2_def updateOptions2_def no_options2_def
  queryReducer2_eq initialState2_def render2_def

text \<open>
  C8. START transition: applying the START (LOADING) event to the transition function
  yields the status LOADING, with data and error unchanged. The first variant does so
  (\<open>START_first_variant\<close>). The second variant, run here on its initial state,
  stores LOADED instead: line 337 writes \<^verbatim>\<open>QueryStatus.LOADED\<close>.
\<close>

theorem START_second_variant_stores_LOADED:
  "queryReducer2 initialState2 \<lparr>action_type2 = ACTIONS2_LOADING, payload2 = Undefined\<rparr>
     = \<lparr>status2 = LOADED2, data2 = Null\<rparr>"
  by (simp add: queryReducer2_eq initialState2_def)

text \<open>
  C9. The ERROR transition preserves the data: for every state and every error payload,
  the ERROR event yields a state whose data is the data before, with the status ERROR and
  the payload as the error. RESET is the transition that sets the data to null.
\<close>

theorem ERROR_preserves_data:
  "data (queryReducer s \<lparr>action_type = ACTIONS_ERROR, payload = p\<rparr>) = data s
   \<and> status (queryReducer s \<lparr>action_type = ACTIONS_ERROR, payload = p\<rparr>) = ERROR
   \<and> error (queryReducer s \<lparr>action_type = ACTIONS_ERROR, payload = p\<rparr>) = p
   \<and> data (queryReducer s \<lparr>action_type = ACTIONS_RESET, payload = p\<rparr>) = Null"
  by (simp add: queryReducer_eq initialState_def)

subsection \<open>The merge of options\<close>

lemma spread_field_twice: "spread_field (spread_field a b) b = spread_field a b"
  by (cases b) simp_all

lemma map_add_twice: "(m ++ n) ++ n = m ++ (n :: 'a \<rightharpoonup> 'b)"
  by (rule ext) (simp add: map_add_def split: option.split)

text \<open>
  In the first variant the query maps merge key by key, the incoming value winning; in
  the second the incoming query, when there is one, replaces the stored one.
\<close>

lemma updateOptions_query_by_key:
  "query (updateOptions a b) = Val m \<Longrightarrow>
   m k = (case spread_of (query b) k of None \<Rightarrow> spread_of (query a) k | Some v \<Rightarrow> Some v)"
  by (auto simp add: updateOptions_def spread_record_def map_add_def)

lemma updateOptions2_query_replaced:
  "query2 b = Val m \<Longrightarrow> query2 (updateOptions2 a b) = Val m"
  by (simp add: updateOptions2_def)

text \<open>
  C5. Merge idempotence: merging the same incoming options a second time changes
  nothing, \<open>merge (merge a b) b = merge a b\<close>, for all options \<open>a\<close> and \<open>b\<close>, in
  both variants of \<^verbatim>\<open>updateOptions\<close>.
\<close>

theorem updateOptions_idempotent:
  "updateOptions (updateOptions a b) b = updateOptions a b
   \<and> updateOptions2 (updateOptions2 a2 b2) b2 = updateOptions2 a2 b2"
  by (simp add: updateOptions_def updateOptions2_def spread_record_def map_add_twice
      spread_field_twice)

text \<open>
  C10. The merge always produces a query that is a present (possibly empty) map: it is
  the empty map when neither the stored nor the incoming options have a query.
  So merging the empty options is not the identity on stored options without a query.
\<close>

theorem updateOptions_query_present:
  "(\<exists>m. query (updateOptions stored incoming) = Val m)
   \<and> (\<not> truthy_field (query stored) \<and> \<not> truthy_field (query incoming)
        \<longrightarrow> query (updateOptions stored incoming) = Val Map.empty)
   \<and> (\<not> truthy_field (query stored) \<longrightarrow> updateOptions stored no_options \<noteq> stored)"
proof -
  have "spread_of q = Map.empty" if "\<not> truthy_field q" for q :: "jsrecord field"
    using that by (cases q) simp_all
  moreover have "updateOptions stored no_options \<noteq> stored" if "\<not> truthy_field (query stored)"
  proof
    assume "updateOptions stored no_options = stored"
    then have "query (updateOptions stored no_options) = query stored" by simp
    then have "query stored = Val (spread_record (query stored) (query no_options))"
      by (simp add: updateOptions_def)
    then have "truthy_field (query stored)" by (cases "query stored") simp_all
    with that show False by simp
  qed
  ultimately show ?thesis
    by (simp add: updateOptions_def spread_record_def)
qed

text \<open>The empty options, merged with themselves: the result has the empty query map.\<close>

theorem updateOptions_query_present_witness:
  "\<not> truthy_field (query no_options)
   \<and> query (updateOptions no_options no_options) = Val Map.empty
   \<and> updateOptions no_options no_options \<noteq> no_options"
  using updateOptions_query_present [of no_options no_options] by (simp add: no_options_def)

subsection \<open>The guard of \<^verbatim>\<open>request\<close>\<close>

text \<open>
  No status is the name of a property of the array of the guard: its properties are
  \<open>0\<close>, \<open>1\<close>, \<open>2\<close>, \<open>length\<close> and the inherited methods.
\<close>

lemma guard_array_keys:
  "array_own_keys [IDLE, LOADED, HYDRATED] = [''0'', ''1'', ''2'', ''length'']"
  by (simp add: array_own_keys_def string_of_nat.simps digit_char_def)

lemma request_guard_False: "\<not> request_guard st"
  by (cases st) (simp_all add: request_guard_def js_in_array_def array_own_keys_def
      Array_prototype_keys_def Object_prototype_keys_def string_of_nat.simps digit_char_def)

lemma request_guard2_False: "\<not> request_guard2 st"
  by (cases st) (simp_all add: request_guard2_def js_in_array_def array_own_keys_def
      Array_prototype_keys_def Object_prototype_keys_def string_of_nat.simps digit_char_def)

lemma request_never_runs: "request options req h = (Returned, h)"
  by (simp add: request_def request_guard_False)

lemma request2_never_runs: "request2 options req h = (Returned, h)"
  by (simp add: request2_def request_guard2_False)

text \<open>
  C2. The guard of \<^verbatim>\<open>request\<close> dispatches on the status: from IDLE, LOADED, HYDRATED or
  ERROR the primary fetch is performed, from LOADING or HYDRATING the call is rejected.
  On the first render (status IDLE) \<^verbatim>\<open>request\<close> returns with every cell as it was, in
  both variants: nothing is dispatched and the transport function is not called.
\<close>

theorem request_from_IDLE_does_nothing:
  "status (state (hook_init opts)) = IDLE
   \<and> request options req (hook_init opts) = (Returned, hook_init opts)
   \<and> status2 (state2 (hook_init2 opts2)) = IDLE2
   \<and> request2 options2 req2 (hook_init2 opts2) = (Returned, hook_init2 opts2)"
  by (simp add: request_never_runs request2_never_runs hook_init_def hook_init2_def
      initialState_def initialState2_def)

text \<open>
  C4. Hydration ordering: \<^verbatim>\<open>request()\<close> issued with stored options that hold a
  non-empty hydrate query, and a transport function that succeeds, takes the status
  through LOADING, LOADED, HYDRATING, HYDRATED and leaves the hydration payload as the
  data. Run on the first render with \<^verbatim>\<open>hydrate: { query: { ids: "1,2,3" } }\<close> and a
  transport function that resolves every call: \<^verbatim>\<open>request\<close> returns with the hook
  as it was, the status IDLE, no dispatch, no call of the transport function and the
  data still null.
\<close>

theorem request_with_hydrate_query_does_nothing:
  "status (state (hook_init ids_hydrate_options)) = IDLE
   \<and> truthy_field (chain_query (hydrate (optionsRef (hook_init ids_hydrate_options))))
   \<and> try_block (outcome (plain_transport a))
       = Inr (if hydrate_flag a then hydration_payload else primary_payload)
   \<and> request None plain_transport (hook_init ids_hydrate_options)
       = (Returned, hook_init ids_hydrate_options)
   \<and> dispatched (snd (request None plain_transport (hook_init ids_hydrate_options))) = []
   \<and> invoked (snd (request None plain_transport (hook_init ids_hydrate_options))) = []
   \<and> data (state (snd (request None plain_transport (hook_init ids_hydrate_options)))) = Null"
  by (simp add: request_never_runs hook_init_def initialState_def ids_hydrate_options_def
      page_options_def plain_transport_def resolves_def try_block_def
      hydration_payload_def primary_payload_def)

text \<open>
  C7. A request whose stored options have no hydrate field performs exactly one fetch
  (and one whose options have a hydrate field, a second fetch after the first
  succeeded). Run on the first render with options that have no hydrate field and a
  transport function that resolves every call: \<^verbatim>\<open>request\<close> performs no fetch at all.
\<close>

theorem request_without_hydrate_fetches_nothing:
  "hydrate (optionsRef (hook_init page_options)) = Absent
   \<and> status (state (hook_init page_options)) = IDLE
   \<and> invoked (snd (request None plain_transport (hook_init page_options))) = []
   \<and> dispatched (snd (request None plain_transport (hook_init page_options))) = []
   \<and> status (state (snd (request None plain_transport (hook_init page_options)))) = IDLE"
  by (simp add: request_never_runs hook_init_def initialState_def page_options_def)

subsection \<open>The block under the guard\<close>

text \<open>
  Lines 226--231 and 408--413 never run: \<^verbatim>\<open>call\<close> is local to \<^verbatim>\<open>request\<close>, and
  \<^verbatim>\<open>request\<close> never passes its guard (\<open>request_never_runs\<close>, \<open>request2_never_runs\<close>).
  The lemmas of this subsection run the block by itself and say what it would do;
  none of them is a statement about what \<^verbatim>\<open>request\<close> does.
\<close>

text \<open>
  With a hydrate query in the hook's argument and a transport function that succeeds,
  the block dispatches the four statuses in order and ends with the hydration payload;
  with no hydrate field it fetches once.
\<close>

lemma block_four_statuses:
  "dispatched (snd (request_cycle None plain_transport (hook_init ids_hydrate_options)))
     = [LOADING, LOADED, HYDRATING, HYDRATED]
   \<and> map hydrate_flag
        (invoked (snd (request_cycle None plain_transport (hook_init ids_hydrate_options))))
     = [False, True]
   \<and> data (state (snd (request_cycle None plain_transport (hook_init ids_hydrate_options))))
     = hydration_payload"
  by (simp add: run_defs ids_hydrate_options_def page_options_def plain_transport_def
      resolves_def hydration_payload_def primary_payload_def)

lemma block_single_fetch:
  "dispatched (snd (request_cycle None plain_transport (hook_init page_options)))
     = [LOADING, LOADED]
   \<and> map hydrate_flag
        (invoked (snd (request_cycle None plain_transport (hook_init page_options))))
     = [False]"
  by (simp add: run_defs page_options_def plain_transport_def resolves_def
      hydration_payload_def primary_payload_def)

text \<open>
  With \<^verbatim>\<open>hydrate: {}\<close> the hydration call returns at line 201, also when the transport
  function declared the ids during the primary fetch: the render after the dispatch of
  LOADED has put the hook's argument back into \<^verbatim>\<open>optionsRef\<close>.
\<close>

lemma block_drops_declared_hydrate:
  "dispatched (snd (request_cycle None declaring_transport (hook_init empty_hydrate_options)))
     = [LOADING, LOADED]
   \<and> map hydrate_flag
        (invoked (snd (request_cycle None declaring_transport (hook_init empty_hydrate_options))))
     = [False]"
  by (simp add: run_defs empty_hydrate_options_def page_options_def declaring_transport_def
      resolves_def hydration_payload_def primary_payload_def)

text \<open>
  After a primary fetch that rejects, the block of the first variant goes on to the
  hydration fetch; the block of the second variant ends with the rejection thrown.
\<close>

lemma block_hydrates_after_ERROR:
  "dispatched (snd (request_cycle None failing_primary (hook_init ids_hydrate_options)))
     = [LOADING, ERROR, HYDRATING, HYDRATED]
   \<and> map hydrate_flag
        (invoked (snd (request_cycle None failing_primary (hook_init ids_hydrate_options))))
     = [False, True]
   \<and> error (state (snd (request_cycle None failing_primary (hook_init ids_hydrate_options))))
     = Str ''boom''"
  by (simp add: run_defs ids_hydrate_options_def page_options_def failing_primary_def
      resolves_def rejects_def boom_def hydration_payload_def)

lemma block2_rethrows:
  "fst (request_cycle2 None (\<lambda>a. rejects2 boom)
          (hook_init2 (no_options2\<lparr>hydrate2 := Val \<lparr>hydrate_query = Absent\<rparr>\<rparr>))) = Threw boom
   \<and> length (invoked2 (snd (request_cycle2 None (\<lambda>a. rejects2 boom)
          (hook_init2 (no_options2\<lparr>hydrate2 := Val \<lparr>hydrate_query = Absent\<rparr>\<rparr>))))) = 1"
  by (simp add: run_defs2 rejects2_def boom_def Let_def)

text \<open>
  The completion of a call reads \<^verbatim>\<open>mounted\<close> and never \<^verbatim>\<open>abortRef\<close>: it does the
  same whatever controller is current. Two calls begun one after the other and resolved
  in the opposite order leave the payload of the first.
\<close>

lemma set_options_abortRef:
  "set_options opts (h\<lparr>abortRef := t\<rparr>) = (set_options opts h)\<lparr>abortRef := t\<rparr>"
  by (simp add: set_options_def)

lemma declared_abortRef:
  "foldl (\<lambda>h' opts. set_options opts h') (h\<lparr>abortRef := t\<rparr>) ds
     = (foldl (\<lambda>h' opts. set_options opts h') h ds)\<lparr>abortRef := t\<rparr>"
  by (induction ds arbitrary: h) (simp_all add: set_options_abortRef)

lemma call_complete_ignores_abortRef:
  "call_complete withHydrate r (h\<lparr>abortRef := t\<rparr>)
     = (fst (call_complete withHydrate r h), (snd (call_complete withHydrate r h))\<lparr>abortRef := t\<rparr>)"
  by (simp add: call_complete_def declared_abortRef dispatch_def render_def Let_def
      split: sum.split)

lemma block_stale_completion_overwrites:
  "abortRef (snd (call_begin False None (snd (call_begin False None (hook_init page_options)))))
       = Some 1
   \<and> data (state (snd (call_complete False (resolves first_payload)
        (snd (call_complete False (resolves second_payload)
        (snd (call_begin False None (snd (call_begin False None (hook_init page_options))))))))))
       = first_payload"
  by (simp add: run_defs page_options_def resolves_def first_payload_def second_payload_def)

end
